theory Spec2Isabelle
  imports Main
begin

section \<open>Data model\<close>

text \<open>
  The chat persistence code of the repository: the hook \<^verbatim>\<open>useChatHistory\<close>
  (\<^verbatim>\<open>src/unnamed/part_000\<close>), the LocalStorage fallback
  (\<^verbatim>\<open>src/unnamed/part_001\<close>) and the chat store
  (\<^verbatim>\<open>src/app/lib/stores/chat.ts\<close>).

  Strings are \<open>string\<close>. A value that may be \<^verbatim>\<open>null\<close> or \<^verbatim>\<open>undefined\<close> is an
  \<open>option\<close>. Record fields carry a prefix (\<open>msg_\<close>, \<open>item_\<close>, \<open>chat_\<close>) because several
  interfaces of the source share the field names \<^verbatim>\<open>id\<close>, \<^verbatim>\<open>messages\<close>, \<^verbatim>\<open>description\<close>.
\<close>

text \<open>A JSON object with string fields, in key order.\<close>

type_synonym json_object = "(string \<times> string) list"

text \<open>
  The JavaScript values that reach \<^verbatim>\<open>JSON.stringify\<close> in this code: \<^verbatim>\<open>undefined\<close>,
  \<^verbatim>\<open>null\<close>, booleans, finite numbers (as integers), \<^verbatim>\<open>NaN\<close> and the infinities, strings,
  \<^verbatim>\<open>Date\<close> objects (with the text \<^verbatim>\<open>toISOString\<close> gives, or none for an invalid date),
  arrays, and plain objects as their properties in order.
\<close>

datatype js =
    JsUndefined
  | JsNull
  | JsBool bool
  | JsNumber int
  | JsNonFinite
  | JsString string
  | JsDate "string option"
  | JsArray "js list"
  | JsObject "(string \<times> js) list"

text \<open>A JSON document, as its structure: what the text written by \<^verbatim>\<open>JSON.stringify\<close> says.\<close>

datatype json =
    JNull
  | JBool bool
  | JNumber int
  | JString string
  | JArray "json list"
  | JObject "(string \<times> json) list"

text \<open>
  \<^verbatim>\<open>JSON.stringify\<close>. \<open>None\<close> is \<^verbatim>\<open>undefined\<close>: nothing is written. A \<^verbatim>\<open>Date\<close> is written
  as the string of its \<^verbatim>\<open>toJSON\<close>, an invalid date and a non-finite number as \<^verbatim>\<open>null\<close>;
  an \<^verbatim>\<open>undefined\<close> array element is written as \<^verbatim>\<open>null\<close>, an \<^verbatim>\<open>undefined\<close> property is
  left out.
\<close>

fun JSON_stringify :: "js \<Rightarrow> json option"
  and stringify_elements :: "js list \<Rightarrow> json list"
  and stringify_properties :: "(string \<times> js) list \<Rightarrow> (string \<times> json) list" where
  "JSON_stringify JsUndefined = None"
| "JSON_stringify JsNull = Some JNull"
| "JSON_stringify (JsBool b) = Some (JBool b)"
| "JSON_stringify (JsNumber n) = Some (JNumber n)"
| "JSON_stringify JsNonFinite = Some JNull"
| "JSON_stringify (JsString s) = Some (JString s)"
| "JSON_stringify (JsDate d) = Some (case d of None \<Rightarrow> JNull | Some text \<Rightarrow> JString text)"
| "JSON_stringify (JsArray xs) = Some (JArray (stringify_elements xs))"
| "JSON_stringify (JsObject ps) = Some (JObject (stringify_properties ps))"
| "stringify_elements [] = []"
| "stringify_elements (x # xs) =
     (case JSON_stringify x of None \<Rightarrow> JNull | Some j \<Rightarrow> j) # stringify_elements xs"
| "stringify_properties [] = []"
| "stringify_properties ((k, v) # ps) =
     (case JSON_stringify v of
        None \<Rightarrow> stringify_properties ps
      | Some j \<Rightarrow> (k, j) # stringify_properties ps)"

text \<open>\<^verbatim>\<open>JSON.parse\<close> of a document.\<close>

fun JSON_parse :: "json \<Rightarrow> js"
  and parse_elements :: "json list \<Rightarrow> js list"
  and parse_properties :: "(string \<times> json) list \<Rightarrow> (string \<times> js) list" where
  "JSON_parse JNull = JsNull"
| "JSON_parse (JBool b) = JsBool b"
| "JSON_parse (JNumber n) = JsNumber n"
| "JSON_parse (JString s) = JsString s"
| "JSON_parse (JArray xs) = JsArray (parse_elements xs)"
| "JSON_parse (JObject ps) = JsObject (parse_properties ps)"
| "parse_elements [] = []"
| "parse_elements (x # xs) = JSON_parse x # parse_elements xs"
| "parse_properties [] = []"
| "parse_properties ((k, v) # ps) = (k, JSON_parse v) # parse_properties ps"

text \<open>
  A value made of \<^verbatim>\<open>null\<close>, booleans, finite numbers, strings, arrays and objects only:
  no \<^verbatim>\<open>undefined\<close>, no non-finite number and no \<^verbatim>\<open>Date\<close> anywhere inside.
\<close>

fun jsonData :: "js \<Rightarrow> bool"
  and jsonData_elements :: "js list \<Rightarrow> bool"
  and jsonData_properties :: "(string \<times> js) list \<Rightarrow> bool" where
  "jsonData JsUndefined = False"
| "jsonData JsNull = True"
| "jsonData (JsBool b) = True"
| "jsonData (JsNumber n) = True"
| "jsonData JsNonFinite = False"
| "jsonData (JsString s) = True"
| "jsonData (JsDate d) = False"
| "jsonData (JsArray xs) = jsonData_elements xs"
| "jsonData (JsObject ps) = jsonData_properties ps"
| "jsonData_elements [] = True"
| "jsonData_elements (x # xs) = (jsonData x \<and> jsonData_elements xs)"
| "jsonData_properties [] = True"
| "jsonData_properties ((k, v) # ps) = (jsonData v \<and> jsonData_properties ps)"

text \<open>
  An entry of \<^verbatim>\<open>Message.annotations\<close> (declared \<^verbatim>\<open>JSONValue[]\<close>): a string tag or a
  structured annotation.
\<close>

datatype annotation = Tag string | Obj json_object

datatype role = User | Assistant

text \<open>
  A message. \<^verbatim>\<open>createdAt\<close> is declared a \<^verbatim>\<open>Date\<close>; it holds whatever value the object
  has at run time, which after \<^verbatim>\<open>JSON.parse\<close> is a string.
\<close>

record message =
  msg_id :: string
  msg_role :: role
  msg_content :: string
  msg_createdAt :: "js option"
  msg_annotations :: "annotation list option"

text \<open>\<^verbatim>\<open>interface ChatHistoryItem\<close> (part_000, lines 27-34).\<close>

record ChatHistoryItem =
  item_id :: string
  item_urlId :: "string option"
  item_description :: "string option"
  item_messages :: "message list"
  item_timestamp :: string
  item_metadata :: "js option"

text \<open>A file map entry: \<^verbatim>\<open>{type: 'file', content, isBinary}\<close> or \<^verbatim>\<open>{type: 'folder'}\<close>.\<close>

datatype file_entry = File string bool | Folder

text \<open>
  The snapshot. \<^verbatim>\<open>files\<close> is listed in the order of \<^verbatim>\<open>Object.entries\<close>; an entry of the
  file map may be \<^verbatim>\<open>undefined\<close>.
\<close>

record snapshot =
  chatIndex :: string
  files :: "(string \<times> file_entry option) list"
  summary :: "string option"

section \<open>JavaScript primitives used by the code\<close>

text \<open>Truthiness of a \<^verbatim>\<open>string | null | undefined\<close>: neither absent nor the empty string.\<close>

definition truthy :: "string option \<Rightarrow> bool" where
  "truthy v = (case v of None \<Rightarrow> False | Some s \<Rightarrow> s \<noteq> [])"

text \<open>\<^verbatim>\<open>Array.prototype.findIndex\<close>: the first index that satisfies the predicate, or -1.\<close>

fun findIndex :: "('a \<Rightarrow> bool) \<Rightarrow> 'a list \<Rightarrow> int" where
  "findIndex P [] = -1"
| "findIndex P (x # xs) =
     (if P x then 0 else (let i = findIndex P xs in if i < 0 then -1 else i + 1))"

text \<open>
  \<^verbatim>\<open>Array.prototype.slice(start, end)\<close>: a negative index counts from the end, both
  indices are clamped to the array, and an end before the start gives the empty array.
\<close>

definition slice :: "'a list \<Rightarrow> int \<Rightarrow> int \<Rightarrow> 'a list" where
  "slice xs start end' =
     (let len = int (length xs);
          k = (if start < 0 then max (len + start) 0 else min start len);
          final = (if end' < 0 then max (len + end') 0 else min end' len)
      in take (nat (final - k)) (drop (nat k) xs))"

text \<open>\<^verbatim>\<open>Array.prototype.join\<close> on strings.\<close>

fun join :: "string \<Rightarrow> string list \<Rightarrow> string" where
  "join sep [] = []"
| "join sep [x] = x"
| "join sep (x # y # ys) = x @ sep @ join sep (y # ys)"

text \<open>\<^verbatim>\<open>m.annotations?.includes(tag)\<close>: false when the message has no annotations.\<close>

definition includes_tag :: "message \<Rightarrow> string \<Rightarrow> bool" where
  "includes_tag m t =
     (case msg_annotations m of None \<Rightarrow> False | Some as \<Rightarrow> Tag t \<in> set as)"

section \<open>The rewind resolver: processStoredMessages\<close>

text \<open>
  What \<^verbatim>\<open>processStoredMessages\<close> takes from outside the repository:
  the id made by \<^verbatim>\<open>generateId()\<close>, and the string that
  \<^verbatim>\<open>createCommandActionsString(await detectProjectCommands(files))\<close> gives for a list of
  \<^verbatim>\<open>{content, path}\<close> pairs.
\<close>

record collaborators =
  generateId :: string
  commandActionsString :: "(string \<times> string) list \<Rightarrow> string"

text \<open>The React state of the hook and the three atoms \<^verbatim>\<open>chatId\<close>, \<^verbatim>\<open>description\<close>,
  \<^verbatim>\<open>chatMetadata\<close>; \<open>restoreSnapshotCalls\<close> logs the calls of \<^verbatim>\<open>restoreSnapshot\<close>.\<close>

record hook_state =
  archivedMessages :: "message list"
  initialMessages :: "message list"
  ready :: bool
  urlId :: "string option"
  description :: "string option"
  chatId :: "string option"
  chatMetadata :: "js option"
  restoreSnapshotCalls :: "string list"

text \<open>Line 95: \<^verbatim>\<open>snapshot || { chatIndex: '', files: {} }\<close>.\<close>

definition validSnapshot :: "snapshot option \<Rightarrow> snapshot" where
  "validSnapshot snap =
     (case snap of None \<Rightarrow> \<lparr>chatIndex = [], files = [], summary = None\<rparr> | Some s \<Rightarrow> s)"

text \<open>Lines 100-102.\<close>

definition endingIdx :: "string option \<Rightarrow> message list \<Rightarrow> int" where
  "endingIdx rewindId msgs =
     (if truthy rewindId then findIndex (\<lambda>m. Some (msg_id m) = rewindId) msgs + 1
      else int (length msgs))"

text \<open>Line 103.\<close>

definition snapshotIndex :: "snapshot option \<Rightarrow> message list \<Rightarrow> int" where
  "snapshotIndex snap msgs = findIndex (\<lambda>m. msg_id m = chatIndex (validSnapshot snap)) msgs"

text \<open>
  Lines 99-111: \<^verbatim>\<open>startingIdx\<close> after both conditionals. The comparison of line 109 is
  \<^verbatim>\<open>==\<close> between a string and a \<^verbatim>\<open>string | null\<close>, true only for a non-null equal string.
\<close>

definition startingIdx :: "snapshot option \<Rightarrow> string option \<Rightarrow> message list \<Rightarrow> int" where
  "startingIdx snap rewindId msgs =
     (let si = snapshotIndex snap msgs;
          s1 = (if si \<ge> 0 \<and> si < endingIdx rewindId msgs then si else -1)
      in if si > 0 \<and> Some (msg_id (msgs ! nat si)) = rewindId then -1 else s1)"

text \<open>Lines 123-134: the \<^verbatim>\<open>{content, path}\<close> pairs of the entries of type file.\<close>

definition snapshotFiles :: "(string \<times> file_entry option) list \<Rightarrow> (string \<times> string) list" where
  "snapshotFiles fs =
     List.map_filter
       (\<lambda>(key, value). case value of Some (File content isBinary) \<Rightarrow> Some (content, key) | _ \<Rightarrow> None)
       fs"

definition nl :: string where
  "nl = [CHR 0x0A]"

definition dq :: string where
  "dq = [CHR 0x22]"

text \<open>Lines 151-161: the text one file map entry adds to the restore message.\<close>

definition boltAction :: "string \<times> file_entry option \<Rightarrow> string" where
  "boltAction e =
     (case e of (key, value) \<Rightarrow>
        (case value of
           Some (File content isBinary) \<Rightarrow>
             nl @ ''                <boltAction type='' @ dq @ ''file'' @ dq @ '' filePath='' @ dq
                @ key @ dq @ ''>'' @ nl
                @ content @ nl
                @ ''                </boltAction>'' @ nl
                @ ''                ''
         | _ \<Rightarrow> []))"

text \<open>Lines 148-165: the content of the assistant restore message.\<close>

definition restoreContent :: "collaborators \<Rightarrow> snapshot option \<Rightarrow> string" where
  "restoreContent ext snap =
     ''Bolt Restored your chat from a snapshot. You can revert this message to load the full chat history.''
     @ nl
     @ ''            <boltArtifact id='' @ dq @ ''restored-project-setup'' @ dq
     @ '' title='' @ dq @ ''Restored Project & Setup'' @ dq
     @ '' type='' @ dq @ ''bundled'' @ dq @ ''>'' @ nl
     @ ''            ''
     @ join nl (map boltAction (case snap of None \<Rightarrow> [] | Some s \<Rightarrow> files s)) @ nl
     @ ''            ''
     @ commandActionsString ext (snapshotFiles (files (validSnapshot snap))) @ '' '' @ nl
     @ ''            </boltArtifact>'' @ nl
     @ ''            ''"

text \<open>Lines 139-178: the two synthetic messages put before the window.\<close>

definition restoreMessages ::
  "collaborators \<Rightarrow> snapshot option \<Rightarrow> message list \<Rightarrow> message list" where
  "restoreMessages ext snap msgs =
     (let anchor = msg_id (msgs ! nat (snapshotIndex snap msgs)) in
      [\<lparr>msg_id = generateId ext, msg_role = User,
        msg_content = ''Restore project from snapshot'', msg_createdAt = None,
        msg_annotations = Some [Tag ''no-store'', Tag ''hidden'']\<rparr>,
       \<lparr>msg_id = anchor, msg_role = Assistant,
        msg_content = restoreContent ext snap, msg_createdAt = None,
        msg_annotations =
          Some (Tag ''no-store'' #
                (case summary (validSnapshot snap) of
                   None \<Rightarrow> []
                 | Some s \<Rightarrow>
                     if s = [] then []
                     else [Obj [(''chatId'', anchor), (''type'', ''chatSummary''),
                                (''summary'', s)]]))\<rparr>])"

text \<open>
  Lines 94-190. \<open>mixedId\<close> is the id of the route, \<open>rewindId\<close> the value of
  \<^verbatim>\<open>searchParams.get('rewindTo')\<close>.
\<close>

definition processStoredMessages ::
  "collaborators \<Rightarrow> string \<Rightarrow> ChatHistoryItem \<Rightarrow> snapshot option \<Rightarrow> string option
     \<Rightarrow> hook_state \<Rightarrow> hook_state" where
  "processStoredMessages ext mixedId storedMessages snap rewindId h =
     (let msgs = item_messages storedMessages;
          start = startingIdx snap rewindId msgs;
          filteredMessages = slice msgs (start + 1) (endingIdx rewindId msgs);
          archived = (if start \<ge> 0 then slice msgs 0 (start + 1) else []);
          h1 = h\<lparr>archivedMessages := archived\<rparr>;
          h2 = (if start > 0
                then h1\<lparr>initialMessages := restoreMessages ext snap msgs @ filteredMessages,
                        restoreSnapshotCalls := restoreSnapshotCalls h1 @ [mixedId]\<rparr>
                else h1\<lparr>initialMessages := filteredMessages\<rparr>)
      in h2\<lparr>urlId := item_urlId storedMessages,
             description := item_description storedMessages,
             chatId := Some (item_id storedMessages),
             chatMetadata := item_metadata storedMessages,
             ready := True\<rparr>)"

text \<open>The state of the hook when it is first rendered (lines 40-42 and 48-51).\<close>

definition initialHookState :: hook_state where
  "initialHookState =
     \<lparr>archivedMessages = [], initialMessages = [], ready = False, urlId = None,
      description = None, chatId = None, chatMetadata = None, restoreSnapshotCalls = []\<rparr>"

section \<open>The LocalStorage fallback (part_001)\<close>

text \<open>\<^verbatim>\<open>interface LocalStorageChat\<close> (lines 38-45).\<close>

record LocalStorageChat =
  chat_id :: string
  chat_urlId :: "string option"
  chat_description :: "string option"
  chat_messages :: "message list"
  chat_timestamp :: string
  chat_metadata :: "js option"

text \<open>
  The JSON document of a message and of a chat: the object \<^verbatim>\<open>JSON.stringify\<close> writes for
  it. The strings, the role and the annotations are JSON data by their declared types;
  \<^verbatim>\<open>createdAt\<close> and \<^verbatim>\<open>metadata\<close> are whatever \<^verbatim>\<open>JSON.stringify\<close> writes for their values,
  and a property that is \<^verbatim>\<open>undefined\<close> is not in the document.
\<close>

record stored_message =
  doc_msg_id :: string
  doc_msg_role :: role
  doc_msg_content :: string
  doc_msg_createdAt :: "json option"
  doc_msg_annotations :: "annotation list option"

record stored_chat =
  doc_id :: string
  doc_urlId :: "string option"
  doc_description :: "string option"
  doc_messages :: "stored_message list"
  doc_timestamp :: string
  doc_metadata :: "json option"

text \<open>\<^verbatim>\<open>JSON.stringify\<close> of a property that may be absent.\<close>

definition stringify_optional :: "js option \<Rightarrow> json option" where
  "stringify_optional v = (case v of None \<Rightarrow> None | Some x \<Rightarrow> JSON_stringify x)"

definition stringify_message :: "message \<Rightarrow> stored_message" where
  "stringify_message m =
     \<lparr>doc_msg_id = msg_id m, doc_msg_role = msg_role m, doc_msg_content = msg_content m,
      doc_msg_createdAt = stringify_optional (msg_createdAt m),
      doc_msg_annotations = msg_annotations m\<rparr>"

definition parse_message :: "stored_message \<Rightarrow> message" where
  "parse_message d =
     \<lparr>msg_id = doc_msg_id d, msg_role = doc_msg_role d, msg_content = doc_msg_content d,
      msg_createdAt = map_option JSON_parse (doc_msg_createdAt d),
      msg_annotations = doc_msg_annotations d\<rparr>"

definition stringify_chat :: "LocalStorageChat \<Rightarrow> stored_chat" where
  "stringify_chat c =
     \<lparr>doc_id = chat_id c, doc_urlId = chat_urlId c, doc_description = chat_description c,
      doc_messages = map stringify_message (chat_messages c),
      doc_timestamp = chat_timestamp c,
      doc_metadata = stringify_optional (chat_metadata c)\<rparr>"

definition parse_chat :: "stored_chat \<Rightarrow> LocalStorageChat" where
  "parse_chat d =
     \<lparr>chat_id = doc_id d, chat_urlId = doc_urlId d, chat_description = doc_description d,
      chat_messages = map parse_message (doc_messages d),
      chat_timestamp = doc_timestamp d,
      chat_metadata = map_option JSON_parse (doc_metadata d)\<rparr>"

text \<open>Line 101, \<^verbatim>\<open>JSON.stringify(chats)\<close>, and line 75, \<^verbatim>\<open>JSON.parse(stored)\<close>.\<close>

definition stringify_chats :: "LocalStorageChat list \<Rightarrow> stored_chat list" where
  "stringify_chats cs = map stringify_chat cs"

definition parse_chats :: "stored_chat list \<Rightarrow> LocalStorageChat list" where
  "parse_chats ds = map parse_chat ds"

text \<open>What \<^verbatim>\<open>JSON.parse(JSON.stringify(c))\<close> is for a chat \<open>c\<close>.\<close>

definition roundTrip :: "LocalStorageChat \<Rightarrow> LocalStorageChat" where
  "roundTrip c = parse_chat (stringify_chat c)"

text \<open>
  A chat whose \<^verbatim>\<open>metadata\<close> and whose messages' \<^verbatim>\<open>createdAt\<close>, where present, are JSON
  data.
\<close>

definition jsonDataOptional :: "js option \<Rightarrow> bool" where
  "jsonDataOptional v = (case v of None \<Rightarrow> True | Some x \<Rightarrow> jsonData x)"

definition jsonDataChat :: "LocalStorageChat \<Rightarrow> bool" where
  "jsonDataChat c =
     (list_all (\<lambda>m. jsonDataOptional (msg_createdAt m)) (chat_messages c)
      \<and> jsonDataOptional (chat_metadata c))"

text \<open>
  What is stored under the key \<^verbatim>\<open>bolt-chats\<close>: nothing, a string that \<^verbatim>\<open>JSON.parse\<close>
  rejects, or the JSON document of a chat list.
\<close>

datatype stored_chats = NoItem | Unparsable | ChatsJson "stored_chat list"

datatype toast = ToastError string | ToastSuccess string

text \<open>
  The browser around the code. \<open>ls_available\<close> is the answer of the probe in
  \<^verbatim>\<open>isLocalStorageAvailable\<close>; \<open>ls_accepts\<close> tells whether
  \<^verbatim>\<open>localStorage.setItem('bolt-chats', ...)\<close> takes a document or throws (the quota);
  \<open>ls_chats\<close> and \<open>ls_currentChat\<close> are the items under \<^verbatim>\<open>bolt-chats\<close> and
  \<^verbatim>\<open>bolt-current-chat\<close>; \<open>console\<close> and \<open>toasts\<close> log what was written with
  \<^verbatim>\<open>console.warn\<close>, \<^verbatim>\<open>console.error\<close> and \<^verbatim>\<open>toast\<close>; \<open>pathname\<close> is the path of
  \<^verbatim>\<open>window.location\<close>, and \<open>encodePathname\<close> is what the \<^verbatim>\<open>pathname\<close> setter of a
  \<^verbatim>\<open>URL\<close> makes of the string assigned to it (it percent-encodes some characters).
\<close>

record browser =
  ls_available :: bool
  ls_accepts :: "stored_chat list \<Rightarrow> bool"
  ls_chats :: stored_chats
  ls_currentChat :: "string option"
  console :: "string list"
  toasts :: "toast list"
  pathname :: string
  encodePathname :: "string \<Rightarrow> string"

definition consoleLog :: "string \<Rightarrow> browser \<Rightarrow> browser" where
  "consoleLog line b = b\<lparr>console := console b @ [line]\<rparr>"

definition showToast :: "toast \<Rightarrow> browser \<Rightarrow> browser" where
  "showToast t b = b\<lparr>toasts := toasts b @ [t]\<rparr>"

text \<open>Lines 53-62.\<close>

definition isLocalStorageAvailable :: "browser \<Rightarrow> bool" where
  "isLocalStorageAvailable b = ls_available b"

text \<open>Lines 67-80.\<close>

definition getAllChatsFromLocalStorage :: "browser \<Rightarrow> LocalStorageChat list \<times> browser" where
  "getAllChatsFromLocalStorage b =
     (if \<not> isLocalStorageAvailable b then ([], consoleLog ''LocalStorage is not available'' b)
      else case ls_chats b of
             NoItem \<Rightarrow> ([], b)
           | Unparsable \<Rightarrow> ([], consoleLog ''Error reading chats from LocalStorage:'' b)
           | ChatsJson doc \<Rightarrow> (parse_chats doc, b))"

text \<open>Lines 93-99: replace the first entry with the chat's id, or push the chat.\<close>

definition upsertChat :: "LocalStorageChat \<Rightarrow> LocalStorageChat list \<Rightarrow> LocalStorageChat list" where
  "upsertChat chat cs =
     (let existingIndex = findIndex (\<lambda>c. chat_id c = chat_id chat) cs
      in if existingIndex \<ge> 0 then cs[nat existingIndex := chat] else cs @ [chat])"

text \<open>Lines 85-105.\<close>

definition saveChatToLocalStorage :: "LocalStorageChat \<Rightarrow> browser \<Rightarrow> browser" where
  "saveChatToLocalStorage chat b =
     (if \<not> isLocalStorageAvailable b then consoleLog ''LocalStorage is not available'' b
      else case getAllChatsFromLocalStorage b of
             (cs, b1) \<Rightarrow>
               if ls_accepts b1 (stringify_chats (upsertChat chat cs))
               then b1\<lparr>ls_chats := ChatsJson (stringify_chats (upsertChat chat cs))\<rparr>
               else consoleLog ''Error saving chat to LocalStorage:'' b1)"

text \<open>Lines 128-135.\<close>

definition getChatFromLocalStorage :: "string \<Rightarrow> browser \<Rightarrow> LocalStorageChat option \<times> browser" where
  "getChatFromLocalStorage ident b =
     (if \<not> isLocalStorageAvailable b then (None, b)
      else case getAllChatsFromLocalStorage b of
             (cs, b1) \<Rightarrow> (find (\<lambda>c. chat_id c = ident) cs, b1))"

text \<open>Lines 140-154 (the name \<^verbatim>\<open>setCurrentChatId\<close> of the source).\<close>

definition setCurrentChatId :: "string option \<Rightarrow> browser \<Rightarrow> browser" where
  "setCurrentChatId ident b =
     (if \<not> isLocalStorageAvailable b then b
      else if truthy ident then b\<lparr>ls_currentChat := ident\<rparr>
      else b\<lparr>ls_currentChat := None\<rparr>)"

text \<open>Lines 191-200.\<close>

definition convertToLocalStorageChat :: "ChatHistoryItem \<Rightarrow> LocalStorageChat" where
  "convertToLocalStorageChat item =
     \<lparr>chat_id = item_id item, chat_urlId = item_urlId item,
      chat_description = item_description item, chat_messages = item_messages item,
      chat_timestamp = item_timestamp item, chat_metadata = item_metadata item\<rparr>"

section \<open>The chat store (src/app/lib/stores/chat.ts)\<close>

record ChatState =
  st_started :: bool
  st_aborted :: bool
  st_showChat :: bool
  st_currentChatId :: "string option"
  st_messages :: "message list"

text \<open>
  Lines 49-60. \<open>nowIso\<close> is \<^verbatim>\<open>new Date().toISOString()\<close>. The id is
  \<^verbatim>\<open>chatId || chatStore.get().currentChatId\<close>; the chat has no \<^verbatim>\<open>urlId\<close>,
  \<^verbatim>\<open>description\<close> or \<^verbatim>\<open>metadata\<close>.
\<close>

definition saveMessagesToLocalStorage ::
  "string \<Rightarrow> message list \<Rightarrow> string option \<Rightarrow> ChatState \<Rightarrow> browser \<Rightarrow> browser" where
  "saveMessagesToLocalStorage nowIso msgs chatIdArg store b =
     (let currentChatId = (if truthy chatIdArg then chatIdArg else st_currentChatId store)
      in case currentChatId of
           None \<Rightarrow> b
         | Some ident \<Rightarrow>
             if ident = [] then b
             else saveChatToLocalStorage
                    \<lparr>chat_id = ident, chat_urlId = None, chat_description = None,
                     chat_messages = msgs, chat_timestamp = nowIso, chat_metadata = None\<rparr> b)"

section \<open>Saving a chat: storeMessageHistory (part_000)\<close>

text \<open>
  The primary store (\<^verbatim>\<open>./db\<close>) is not among the sources; its four operations used here
  are parameters. Each works on a database state \<open>'db\<close>; \<open>None\<close> is a rejected promise.
  \<open>setMessages\<close> takes the id, the messages, the urlId, the description and the metadata
  (the timestamp argument of the source is always \<^verbatim>\<open>undefined\<close>).
\<close>

record 'db database =
  getUrlId :: "'db \<Rightarrow> string \<Rightarrow> string option"
  getNextId :: "'db \<Rightarrow> string option"
  setMessages :: "'db \<Rightarrow> string \<Rightarrow> message list \<Rightarrow> string option \<Rightarrow> string option
                    \<Rightarrow> js option \<Rightarrow> 'db option"
  setSnapshot :: "'db \<Rightarrow> string \<Rightarrow> snapshot \<Rightarrow> 'db option"

text \<open>\<^verbatim>\<open>workbenchStore.firstArtifact\<close>: the code reads its \<^verbatim>\<open>id\<close> and \<^verbatim>\<open>title\<close>.\<close>

record artifact =
  artifact_id :: string
  artifact_title :: string

text \<open>
  Everything \<^verbatim>\<open>storeMessageHistory\<close> reads and writes: the hook state and atoms, the
  database handle \<^verbatim>\<open>db\<close> (absent when persistence is disabled), the browser, and the
  workbench store.
\<close>

record 'db world =
  hook :: hook_state
  db :: "'db option"
  web :: browser
  firstArtifact :: "artifact option"
  workbenchFiles :: "(string \<times> file_entry option) list"

datatype js_error = TypeError | StoreRejected

text \<open>How an async function ends: its promise resolves, or it rejects with an error.\<close>

datatype outcome = Returned | Threw js_error

text \<open>\<^verbatim>\<open>a || b\<close> for a \<^verbatim>\<open>string | undefined\<close> and a string.\<close>

definition orElse :: "string option \<Rightarrow> string \<Rightarrow> string" where
  "orElse v d = (case v of None \<Rightarrow> d | Some s \<Rightarrow> if s = [] then d else s)"

text \<open>Lines 461-471: the path of a copy of the location is set and the copy is made the
  location.\<close>

definition navigateChat :: "string \<Rightarrow> browser \<Rightarrow> browser" where
  "navigateChat nextId b = b\<lparr>pathname := encodePathname b (''/chat/'' @ nextId)\<rparr>"

text \<open>
  Lines 204-227. The third argument of the source is not used. The body runs up to the
  call of \<^verbatim>\<open>setSnapshot\<close> at once; the model also places the outcome of that call here.
\<close>

definition takeSnapshot ::
  "'db database \<Rightarrow> string \<Rightarrow> (string \<times> file_entry option) list \<Rightarrow> string option
     \<Rightarrow> 'db world \<Rightarrow> 'db world" where
  "takeSnapshot ops chatIdx fs chatSummary w =
     (case db w of
        None \<Rightarrow> w
      | Some d \<Rightarrow>
          if \<not> truthy (chatId (hook w)) then w
          else (case setSnapshot ops d (orElse (chatId (hook w)) [])
                       \<lparr>chatIndex = chatIdx, files = fs, summary = chatSummary\<rparr> of
                  None \<Rightarrow>
                    w\<lparr>web := showToast (ToastError ''Failed to save chat snapshot.'')
                                (consoleLog ''Failed to save snapshot:'' (web w))\<rparr>
                | Some d' \<Rightarrow> w\<lparr>db := Some d'\<rparr>))"

text \<open>Lines 302-305: an annotation that is an object with a key \<^verbatim>\<open>type\<close>.\<close>

definition hasType :: "annotation \<Rightarrow> bool" where
  "hasType a = (case a of Tag t \<Rightarrow> False | Obj kvs \<Rightarrow> map_of kvs ''type'' \<noteq> None)"

definition annotationField :: "annotation \<Rightarrow> string \<Rightarrow> string option" where
  "annotationField a k = (case a of Tag t \<Rightarrow> None | Obj kvs \<Rightarrow> map_of kvs k)"

text \<open>Lines 297-310.\<close>

definition chatSummaryOf :: "message \<Rightarrow> string option" where
  "chatSummaryOf lastMessage =
     (if msg_role lastMessage = Assistant
      then (let filteredAnnotations =
                  (case msg_annotations lastMessage of None \<Rightarrow> [] | Some as \<Rightarrow> filter hasType as)
            in case find (\<lambda>a. annotationField a ''type'' = Some ''chatSummary'')
                      filteredAnnotations of
                 None \<Rightarrow> None
               | Some a \<Rightarrow> annotationField a ''summary'')
      else None)"

text \<open>
  Lines 288-295: the value of \<^verbatim>\<open>_urlId\<close> and the state after the block. \<^verbatim>\<open>setUrlId\<close>
  changes the hook state of the next render, not the \<^verbatim>\<open>urlId\<close> this call closed over.
\<close>

definition assignUrlId :: "'db database \<Rightarrow> 'db world \<Rightarrow> js_error + (string option \<times> 'db world)" where
  "assignUrlId ops w =
     (case (firstArtifact w, db w) of
        (Some a, Some d) \<Rightarrow>
          if \<not> truthy (urlId (hook w)) \<and> artifact_id a \<noteq> []
          then (case getUrlId ops d (artifact_id a) of
                  None \<Rightarrow> Inl StoreRejected
                | Some u \<Rightarrow>
                    Inr (Some u, w\<lparr>web := navigateChat u (web w),
                                   hook := (hook w)\<lparr>urlId := Some u\<rparr>\<rparr>))
          else Inr (urlId (hook w), w)
      | _ \<Rightarrow> Inr (urlId (hook w), w))"

text \<open>Lines 314-316.\<close>

definition describeFromArtifact :: "'db world \<Rightarrow> 'db world" where
  "describeFromArtifact w =
     (case firstArtifact w of
        None \<Rightarrow> w
      | Some a \<Rightarrow>
          if \<not> truthy (description (hook w)) \<and> artifact_title a \<noteq> []
          then w\<lparr>hook := (hook w)\<lparr>description := Some (artifact_title a)\<rparr>\<rparr>
          else w)"

text \<open>
  Lines 319-335. \<open>closedUrlId\<close> is the \<^verbatim>\<open>urlId\<close> the call closed over, \<open>nowMs\<close> is
  \<^verbatim>\<open>Date.now().toString()\<close>.
\<close>

definition assignChatId ::
  "'db database \<Rightarrow> string \<Rightarrow> string option \<Rightarrow> 'db world \<Rightarrow> js_error + 'db world" where
  "assignChatId ops nowMs closedUrlId w =
     (if initialMessages (hook w) = [] \<and> \<not> truthy (chatId (hook w))
      then (case (case db w of Some d \<Rightarrow> getNextId ops d | None \<Rightarrow> Some nowMs) of
              None \<Rightarrow> Inl StoreRejected
            | Some nextId \<Rightarrow>
                (let w1 = w\<lparr>hook := (hook w)\<lparr>chatId := Some nextId\<rparr>,
                            web := setCurrentChatId (Some nextId) (web w)\<rparr>
                 in if \<not> truthy closedUrlId \<and> db w \<noteq> None
                    then Inr (w1\<lparr>web := navigateChat nextId (web w1)\<rparr>)
                    else Inr w1))
      else Inr w)"

text \<open>
  Lines 346-379: the write to the primary store, whose failure is caught and shown, and
  the write to LocalStorage. \<open>nowIso\<close> is \<^verbatim>\<open>new Date().toISOString()\<close>.
\<close>

definition saveToStores ::
  "'db database \<Rightarrow> string \<Rightarrow> string option \<Rightarrow> string option \<Rightarrow> string \<Rightarrow> message list
     \<Rightarrow> 'db world \<Rightarrow> 'db world" where
  "saveToStores ops nowIso closedUrlId urlId' finalChatId msgs w =
     (let allMessages = archivedMessages (hook w) @ msgs;
          w1 = (case db w of
                  None \<Rightarrow> w
                | Some d \<Rightarrow>
                    (case setMessages ops d finalChatId allMessages closedUrlId
                            (description (hook w)) (chatMetadata (hook w)) of
                       None \<Rightarrow>
                         w\<lparr>web := showToast
                                     (ToastError ''Failed to save to database, using LocalStorage fallback'')
                                     (consoleLog ''Error saving to IndexedDB:'' (web w))\<rparr>
                     | Some d' \<Rightarrow> w\<lparr>db := Some d'\<rparr>))
      in w1\<lparr>web := saveChatToLocalStorage
                      \<lparr>chat_id = finalChatId,
                       chat_urlId = Some (orElse urlId' finalChatId),
                       chat_description =
                         Some (orElse (description (hook w1)) (''Chat '' @ finalChatId)),
                       chat_messages = allMessages,
                       chat_timestamp = nowIso,
                       chat_metadata = chatMetadata (hook w1)\<rparr>
                      (web w1)\<rparr>)"

text \<open>
  Lines 280-380. After the filter of line 286 the list may be empty; then
  \<^verbatim>\<open>messages[messages.length - 1]\<close> is \<^verbatim>\<open>undefined\<close> and reading its \<^verbatim>\<open>role\<close> at line
  300 throws a TypeError.
\<close>

definition storeMessageHistory ::
  "'db database \<Rightarrow> string \<Rightarrow> string \<Rightarrow> message list \<Rightarrow> 'db world \<Rightarrow> outcome \<times> 'db world" where
  "storeMessageHistory ops nowMs nowIso messages w =
     (if messages = [] then (Returned, w)
      else
        (let msgs = filter (\<lambda>m. \<not> includes_tag m ''no-store'') messages in
         case assignUrlId ops w of
           Inl e \<Rightarrow> (Threw e, w)
         | Inr (urlId', w1) \<Rightarrow>
             if msgs = [] then (Threw TypeError, w1)
             else
               (let lastMessage = last msgs;
                    w2 = takeSnapshot ops (msg_id lastMessage) (workbenchFiles w1)
                           (chatSummaryOf lastMessage) w1;
                    w3 = describeFromArtifact w2
                in case assignChatId ops nowMs (urlId (hook w)) w3 of
                     Inl e \<Rightarrow> (Threw e, w3)
                   | Inr w4 \<Rightarrow>
                       if \<not> truthy (chatId (hook w4))
                       then (Returned,
                             w4\<lparr>web := showToast
                                          (ToastError ''Failed to save chat messages: Chat ID missing.'')
                                          (consoleLog ''Cannot save messages, chat ID is not set.''
                                             (web w4))\<rparr>)
                       else (Returned,
                             saveToStores ops nowIso (urlId (hook w)) urlId'
                               (orElse (chatId (hook w4)) []) msgs w4))))"

section \<open>Sample data\<close>

text \<open>
  Concrete inputs for the closed theorems below. \<open>exampleMessages\<close> and \<open>exampleSnapshot\<close>
  are the scenario of the specification: four messages with the ids 0 to 3 and a snapshot
  anchored at the message with id 1.
\<close>

definition msg :: "string \<Rightarrow> message" where
  "msg i = \<lparr>msg_id = i, msg_role = User, msg_content = [], msg_createdAt = None,
            msg_annotations = None\<rparr>"

definition chatOf :: "message list \<Rightarrow> ChatHistoryItem" where
  "chatOf ms = \<lparr>item_id = ''7'', item_urlId = None, item_description = None,
                item_messages = ms, item_timestamp = [], item_metadata = None\<rparr>"

definition noCommands :: collaborators where
  "noCommands = \<lparr>generateId = ''gen'', commandActionsString = (\<lambda>fs. [])\<rparr>"

definition exampleMessages :: "message list" where
  "exampleMessages = [msg ''0'', msg ''1'', msg ''2'', msg ''3'']"

definition exampleSnapshot :: snapshot where
  "exampleSnapshot =
     \<lparr>chatIndex = ''1'',
      files = [(''/home/project/a.txt'', Some (File ''hello'' False)),
               (''/home/project/src'', Some Folder)],
      summary = None\<rparr>"

definition emptyIdSnapshot :: snapshot where
  "emptyIdSnapshot = \<lparr>chatIndex = [], files = [], summary = None\<rparr>"

definition strayMessages :: "message list" where
  "strayMessages = [msg ''x'', msg [], msg ''y'']"

definition exampleBrowser :: browser where
  "exampleBrowser =
     \<lparr>ls_available = True, ls_accepts = (\<lambda>cs. True), ls_chats = NoItem,
      ls_currentChat = None, console = [], toasts = [], pathname = ''/'',
      encodePathname = (\<lambda>p. p)\<rparr>"

definition exampleChat :: "string \<Rightarrow> message list \<Rightarrow> LocalStorageChat" where
  "exampleChat i ms =
     \<lparr>chat_id = i, chat_urlId = Some i, chat_description = Some ''Chat'',
      chat_messages = ms, chat_timestamp = ''2024-01-01T00:00:00.000Z'',
      chat_metadata = Some (JsObject [(''gitUrl'', JsString ''https://example.org/r.git'')])\<rparr>"

text \<open>A message as the chat hook makes it, with a \<^verbatim>\<open>Date\<close> in \<^verbatim>\<open>createdAt\<close>.\<close>

definition datedMessage :: message where
  "datedMessage =
     \<lparr>msg_id = ''m1'', msg_role = User, msg_content = ''hi'',
      msg_createdAt = Some (JsDate (Some ''2024-01-01T00:00:00.000Z'')),
      msg_annotations = None\<rparr>"

definition idleStore :: ChatState where
  "idleStore =
     \<lparr>st_started = False, st_aborted = False, st_showChat = True,
      st_currentChatId = None, st_messages = []\<rparr>"

definition noStoreMessage :: message where
  "noStoreMessage =
     \<lparr>msg_id = ''a'', msg_role = User, msg_content = ''hi'', msg_createdAt = None,
      msg_annotations = Some [Tag ''no-store'']\<rparr>"

definition idleDatabase :: "unit database" where
  "idleDatabase =
     \<lparr>getUrlId = (\<lambda>d seed. Some seed), getNextId = (\<lambda>d. Some ''1''),
      setMessages = (\<lambda>d i ms u de me. Some d), setSnapshot = (\<lambda>d i s. Some d)\<rparr>"

text \<open>A loaded chat whose \<^verbatim>\<open>chatId\<close> atom is unset, and a chat not yet saved; both
  without a database.\<close>

definition strandedWorld :: "unit world" where
  "strandedWorld =
     \<lparr>hook = initialHookState\<lparr>initialMessages := [msg ''0'']\<rparr>, db = None,
      web = exampleBrowser, firstArtifact = None, workbenchFiles = []\<rparr>"

definition freshWorld :: "unit world" where
  "freshWorld =
     \<lparr>hook = initialHookState, db = None,
      web = exampleBrowser, firstArtifact = None, workbenchFiles = []\<rparr>"

section \<open>Facts about findIndex and slice\<close>

lemma findIndex_ge: "- 1 \<le> findIndex P xs"
  by (induction xs) (auto simp: Let_def)

lemma findIndex_less: "findIndex P xs < int (length xs)"
  by (induction xs) (auto simp: Let_def)

lemma findIndex_none: "findIndex P xs < 0 \<longleftrightarrow> (\<forall>x \<in> set xs. \<not> P x)"
  using findIndex_ge [of P] by (induction xs) (auto simp: Let_def)

lemma findIndex_none_eq: "(\<forall>x \<in> set xs. \<not> P x) \<Longrightarrow> findIndex P xs = - 1"
  using findIndex_none [of P xs] findIndex_ge [of P xs] by simp

lemma findIndex_some: "0 \<le> findIndex P xs \<longleftrightarrow> (\<exists>x \<in> set xs. P x)"
  using findIndex_none [of P xs] by auto

text \<open>The element at the index found satisfies the predicate.\<close>

lemma findIndex_sat: "0 \<le> findIndex P xs \<Longrightarrow> P (xs ! nat (findIndex P xs))"
proof (induction xs)
  case Nil
  then show ?case by simp
next
  case (Cons x xs)
  show ?case
  proof (cases "P x")
    case True
    then show ?thesis by simp
  next
    case False
    with Cons.prems have nn: "0 \<le> findIndex P xs"
      by (simp add: Let_def split: if_splits)
    with False Cons.IH show ?thesis
      by (simp add: Let_def nat_add_distrib)
  qed
qed


lemma slice_nonneg:
  "0 \<le> a \<Longrightarrow> 0 \<le> b \<Longrightarrow> slice xs a b = take (nat b - nat a) (drop (nat a) xs)"
  by (auto simp: slice_def Let_def min_def nat_diff_distrib')

lemma slice_from_0: "0 \<le> b \<Longrightarrow> slice xs 0 b = take (nat b) xs"
  by (simp add: slice_nonneg)

lemma take_take_drop: "a \<le> b \<Longrightarrow> take a xs @ take (b - a) (drop a xs) = take b xs"
proof -
  assume "a \<le> b"
  then have "take b xs = take (a + (b - a)) xs" by simp
  also have "\<dots> = take a xs @ take (b - a) (drop a xs)" by (rule take_add)
  finally show ?thesis by simp
qed

lemma window_split:
  assumes "0 \<le> s" "s < e"
  shows "slice msgs 0 (s + 1) @ slice msgs (s + 1) e = take (nat e) msgs"
proof -
  from assms have "nat (s + 1) \<le> nat e" by simp
  then have "take (nat (s + 1)) msgs @ take (nat e - nat (s + 1)) (drop (nat (s + 1)) msgs)
               = take (nat e) msgs"
    by (rule take_take_drop)
  with assms show ?thesis by (simp add: slice_nonneg)
qed

section \<open>The indices of the resolver\<close>

lemma endingIdx_bounds: "0 \<le> endingIdx r msgs \<and> endingIdx r msgs \<le> int (length msgs)"
  using findIndex_ge [of "\<lambda>m. Some (msg_id m) = r" msgs]
    findIndex_less [of "\<lambda>m. Some (msg_id m) = r" msgs]
  by (simp add: endingIdx_def)

text \<open>
  A non-empty rewind id that no message carries: \<^verbatim>\<open>findIndex\<close> gives -1 and line 101 adds
  1, so the window ends at 0.
\<close>

lemma endingIdx_unknown_target:
  "r \<noteq> [] \<Longrightarrow> \<forall>m \<in> set msgs. msg_id m \<noteq> r \<Longrightarrow> endingIdx (Some r) msgs = 0"
  by (simp add: endingIdx_def truthy_def findIndex_none_eq)

text \<open>The empty string is a falsy rewind id: line 100 takes the whole list.\<close>

lemma endingIdx_empty_target: "endingIdx (Some []) msgs = int (length msgs)"
  by (simp add: endingIdx_def truthy_def)

lemma startingIdx_cases:
  "startingIdx snap r msgs = - 1 \<or>
   (startingIdx snap r msgs = snapshotIndex snap msgs \<and> 0 \<le> snapshotIndex snap msgs
      \<and> snapshotIndex snap msgs < endingIdx r msgs)"
  by (simp add: startingIdx_def Let_def)

lemma snapshotIndex_anchor:
  "0 \<le> snapshotIndex snap msgs \<Longrightarrow>
     msg_id (msgs ! nat (snapshotIndex snap msgs)) = chatIndex (validSnapshot snap)"
  unfolding snapshotIndex_def by (rule findIndex_sat)

lemmas resolver_defs =
  processStoredMessages_def startingIdx_def snapshotIndex_def endingIdx_def validSnapshot_def
  truthy_def slice_def Let_def msg_def chatOf_def exampleMessages_def exampleSnapshot_def
  emptyIdSnapshot_def strayMessages_def initialHookState_def

section \<open>Claims about the rewind resolver\<close>

text \<open>
  Claim C1 says that a rewind target id carried by no message is treated as not found, with
  \<open>endingIdx\<close> the length of the list and the window that of a load without rewind target.
  The code at that input: for the messages with ids 0 and 1, no snapshot and the rewind
  target \<^verbatim>\<open>zz\<close>, \<open>endingIdx\<close> is 0 and no message is active, while without a rewind
  target both messages are active.
\<close>

theorem rewind_target_absent_empties_window:
  "endingIdx (Some ''zz'') [msg ''0'', msg ''1''] = 0
   \<and> initialMessages (processStoredMessages noCommands ''7'' (chatOf [msg ''0'', msg ''1''])
        None (Some ''zz'') initialHookState) = []
   \<and> archivedMessages (processStoredMessages noCommands ''7'' (chatOf [msg ''0'', msg ''1''])
        None (Some ''zz'') initialHookState) = []
   \<and> initialMessages (processStoredMessages noCommands ''7'' (chatOf [msg ''0'', msg ''1''])
        None None initialHookState) = [msg ''0'', msg ''1'']"
  by (simp add: resolver_defs)

text \<open>
  Claim C2, amended: for every message list and every non-empty rewind target id \<open>r\<close>, if
  the message at \<open>snapshotIndex > 0\<close> has the id \<open>r\<close>, then \<open>startingIdx\<close> is forced to -1:
  the active messages are the messages up to and including the first one with id \<open>r\<close>,
  nothing is archived, no restore message is put in front and \<^verbatim>\<open>restoreSnapshot\<close> is not
  called.
\<close>

theorem rewind_to_anchor_replays_from_start:
  assumes r: "r \<noteq> []"
    and pos: "0 < snapshotIndex snap (item_messages sm)"
    and eq: "msg_id (item_messages sm ! nat (snapshotIndex snap (item_messages sm))) = r"
  shows "startingIdx snap (Some r) (item_messages sm) = - 1
    \<and> initialMessages (processStoredMessages ext mixedId sm snap (Some r) h)
        = take (nat (findIndex (\<lambda>m. msg_id m = r) (item_messages sm)) + 1) (item_messages sm)
    \<and> archivedMessages (processStoredMessages ext mixedId sm snap (Some r) h) = []
    \<and> restoreSnapshotCalls (processStoredMessages ext mixedId sm snap (Some r) h)
        = restoreSnapshotCalls h"
proof -
  let ?M = "item_messages sm"
  let ?i = "findIndex (\<lambda>m. msg_id m = r) ?M"
  from pos eq have start: "startingIdx snap (Some r) ?M = - 1"
    by (simp add: startingIdx_def Let_def)
  from pos eq snapshotIndex_anchor [of snap ?M] have "chatIndex (validSnapshot snap) = r"
    by simp
  then have idx: "snapshotIndex snap ?M = ?i"
    by (simp add: snapshotIndex_def)
  with pos have ipos: "0 < ?i" by simp
  from r have e: "endingIdx (Some r) ?M = ?i + 1"
    by (simp add: endingIdx_def truthy_def)
  from ipos have "slice ?M 0 (?i + 1) = take (nat ?i + 1) ?M"
    by (simp add: slice_from_0 nat_add_distrib)
  with start e show ?thesis
    by (simp add: processStoredMessages_def Let_def)
qed

text \<open>
  Claim C2, witness: the scenario of the specification, a rewind to the anchor \<^verbatim>\<open>1\<close> of the
  snapshot, shows the messages 0 and 1 and archives nothing.
\<close>

theorem rewind_to_anchor_witness:
  "''1'' \<noteq> []
   \<and> 0 < snapshotIndex (Some exampleSnapshot) (item_messages (chatOf exampleMessages))
   \<and> msg_id (item_messages (chatOf exampleMessages)
               ! nat (snapshotIndex (Some exampleSnapshot) (item_messages (chatOf exampleMessages))))
       = ''1''
   \<and> initialMessages (processStoredMessages noCommands ''7'' (chatOf exampleMessages)
         (Some exampleSnapshot) (Some ''1'') initialHookState) = [msg ''0'', msg ''1'']
   \<and> archivedMessages (processStoredMessages noCommands ''7'' (chatOf exampleMessages)
         (Some exampleSnapshot) (Some ''1'') initialHookState) = []"
proof -
  have h1: "''1'' \<noteq> []" by simp
  have h2: "0 < snapshotIndex (Some exampleSnapshot) (item_messages (chatOf exampleMessages))"
    by (simp add: resolver_defs)
  have h3: "msg_id (item_messages (chatOf exampleMessages)
               ! nat (snapshotIndex (Some exampleSnapshot) (item_messages (chatOf exampleMessages))))
       = ''1''"
    by (simp add: resolver_defs)
  from rewind_to_anchor_replays_from_start [OF h1 h2 h3, of noCommands "''7''" initialHookState]
    h1 h2 h3
  show ?thesis by (simp add: msg_def chatOf_def exampleMessages_def)
qed

text \<open>
  Claim C2 as stated fails for the empty rewind target id. The messages have the ids
  \<^verbatim>\<open>x\<close>, the empty string and \<^verbatim>\<open>y\<close>; the snapshot is anchored at the empty id, which is
  at index 1, and the rewind target is the empty string. Line 100 takes the empty string
  for no target, so the window does not end after index 1: all three messages are active.
\<close>

theorem rewind_to_anchor_empty_id_counterexample:
  "snapshotIndex (Some emptyIdSnapshot) strayMessages = 1
   \<and> msg_id (strayMessages ! 1) = []
   \<and> chatIndex emptyIdSnapshot = []
   \<and> initialMessages (processStoredMessages noCommands ''7'' (chatOf strayMessages)
         (Some emptyIdSnapshot) (Some []) initialHookState) = strayMessages
   \<and> initialMessages (processStoredMessages noCommands ''7'' (chatOf strayMessages)
         (Some emptyIdSnapshot) (Some []) initialHookState) \<noteq> take 2 strayMessages"
  by (simp add: resolver_defs)



text \<open>
  Claim C4: for every message list, snapshot and rewind target, the active messages are
  the synthetic restore messages (present exactly when \<open>startingIdx > 0\<close>) followed by a
  rest, and the archived messages followed by that rest are the messages before
  \<open>endingIdx\<close>.
\<close>

theorem archived_active_reconstruct:
  "initialMessages (processStoredMessages ext mixedId sm snap r h) =
     (if 0 < startingIdx snap r (item_messages sm)
      then restoreMessages ext snap (item_messages sm) else [])
     @ slice (item_messages sm) (startingIdx snap r (item_messages sm) + 1)
         (endingIdx r (item_messages sm))
   \<and> archivedMessages (processStoredMessages ext mixedId sm snap r h)
       @ slice (item_messages sm) (startingIdx snap r (item_messages sm) + 1)
           (endingIdx r (item_messages sm))
     = take (nat (endingIdx r (item_messages sm))) (item_messages sm)"
proof -
  let ?M = "item_messages sm"
  have e: "0 \<le> endingIdx r ?M" using endingIdx_bounds by blast
  have A: "initialMessages (processStoredMessages ext mixedId sm snap r h) =
     (if 0 < startingIdx snap r ?M then restoreMessages ext snap ?M else [])
     @ slice ?M (startingIdx snap r ?M + 1) (endingIdx r ?M)"
    by (simp add: processStoredMessages_def Let_def)
  have B: "archivedMessages (processStoredMessages ext mixedId sm snap r h)
       @ slice ?M (startingIdx snap r ?M + 1) (endingIdx r ?M) = take (nat (endingIdx r ?M)) ?M"
  proof (cases "startingIdx snap r ?M = - 1")
    case True
    with e show ?thesis
      by (simp add: processStoredMessages_def Let_def slice_from_0)
  next
    case False
    with startingIdx_cases [of snap r ?M]
    have s: "0 \<le> startingIdx snap r ?M" "startingIdx snap r ?M < endingIdx r ?M" by auto
    have arch: "archivedMessages (processStoredMessages ext mixedId sm snap r h) =
        (if 0 \<le> startingIdx snap r ?M then slice ?M 0 (startingIdx snap r ?M + 1) else [])"
      by (simp add: processStoredMessages_def Let_def)
    from s(1) have "archivedMessages (processStoredMessages ext mixedId sm snap r h) =
        slice ?M 0 (startingIdx snap r ?M + 1)"
      by (simp only: arch if_True)
    then show ?thesis
      by (simp only: window_split [OF s])
  qed
  from A B show ?thesis by blast
qed

text \<open>
  Claim C4, witness: with the snapshot anchored at 1 and a rewind to 2, the archived
  messages 0 and 1 and the one active stored message 2 give the messages before index 3.
\<close>

theorem archived_active_reconstruct_witness:
  "archivedMessages (processStoredMessages noCommands ''7'' (chatOf exampleMessages)
         (Some exampleSnapshot) (Some ''2'') initialHookState) @ [msg ''2'']
     = [msg ''0'', msg ''1'', msg ''2'']"
  using archived_active_reconstruct
    [of noCommands "''7''" "chatOf exampleMessages" "Some exampleSnapshot" "Some ''2''"
      initialHookState]
  by (simp add: resolver_defs)

text \<open>
  Claim C5: for every message list whose ids are non-empty, resolving with no snapshot and
  no rewind target makes all messages active and archives none. (That the ids are distinct
  is not needed.)
\<close>

theorem no_snapshot_no_rewind_identity:
  assumes "\<forall>m \<in> set (item_messages sm). msg_id m \<noteq> []"
  shows "initialMessages (processStoredMessages ext mixedId sm None None h) = item_messages sm
    \<and> archivedMessages (processStoredMessages ext mixedId sm None None h) = []"
proof -
  let ?M = "item_messages sm"
  from assms have "snapshotIndex None ?M = - 1"
    by (simp add: snapshotIndex_def validSnapshot_def findIndex_none_eq)
  then have start: "startingIdx None None ?M = - 1"
    by (simp add: startingIdx_def Let_def)
  have "endingIdx None ?M = int (length ?M)"
    by (simp add: endingIdx_def truthy_def)
  with start show ?thesis
    by (simp add: processStoredMessages_def Let_def slice_from_0)
qed

text \<open>Claim C5, witness: the four messages of the scenario.\<close>

theorem no_snapshot_no_rewind_identity_witness:
  "[] \<notin> set (map msg_id exampleMessages)
   \<and> initialMessages (processStoredMessages noCommands ''7'' (chatOf exampleMessages)
         None None initialHookState) = exampleMessages
   \<and> archivedMessages (processStoredMessages noCommands ''7'' (chatOf exampleMessages)
         None None initialHookState) = []"
proof -
  have h: "\<forall>m \<in> set (item_messages (chatOf exampleMessages)). msg_id m \<noteq> []"
    by (simp add: chatOf_def exampleMessages_def msg_def)
  have "[] \<notin> set (map msg_id exampleMessages)"
    by (simp add: exampleMessages_def msg_def)
  with no_snapshot_no_rewind_identity [OF h, of noCommands "''7''" initialHookState]
  show ?thesis by (simp add: chatOf_def)
qed

text \<open>
  Claim C6, amended: for every message list whose ids are non-empty, every rewind target
  and every snapshot whose \<^verbatim>\<open>chatIndex\<close> is the id of no message, the resolver leaves the
  same state as with no snapshot at all.
\<close>

theorem unmatched_snapshot_as_absent:
  assumes absent: "\<forall>m \<in> set (item_messages sm). msg_id m \<noteq> chatIndex S"
    and nonempty: "\<forall>m \<in> set (item_messages sm). msg_id m \<noteq> []"
  shows "processStoredMessages ext mixedId sm (Some S) rewindId h
           = processStoredMessages ext mixedId sm None rewindId h"
proof -
  let ?M = "item_messages sm"
  from absent have "snapshotIndex (Some S) ?M = - 1"
    by (simp add: snapshotIndex_def validSnapshot_def findIndex_none_eq)
  then have s1: "startingIdx (Some S) rewindId ?M = - 1"
    by (simp add: startingIdx_def Let_def)
  from nonempty have "snapshotIndex None ?M = - 1"
    by (simp add: snapshotIndex_def validSnapshot_def findIndex_none_eq)
  then have s2: "startingIdx None rewindId ?M = - 1"
    by (simp add: startingIdx_def Let_def)
  from s1 s2 show ?thesis
    by (simp add: processStoredMessages_def Let_def)
qed

text \<open>
  Claim C6, witness: the scenario's messages, a snapshot anchored at the unknown id 9 and a
  rewind to 2.
\<close>

theorem unmatched_snapshot_as_absent_witness:
  "''9'' \<notin> set (map msg_id exampleMessages)
   \<and> [] \<notin> set (map msg_id exampleMessages)
   \<and> processStoredMessages noCommands ''7'' (chatOf exampleMessages)
        (Some (exampleSnapshot\<lparr>chatIndex := ''9''\<rparr>)) (Some ''2'') initialHookState
     = processStoredMessages noCommands ''7'' (chatOf exampleMessages)
        None (Some ''2'') initialHookState"
proof -
  have h1: "\<forall>m \<in> set (item_messages (chatOf exampleMessages)).
              msg_id m \<noteq> chatIndex (exampleSnapshot\<lparr>chatIndex := ''9''\<rparr>)"
    by (simp add: chatOf_def exampleMessages_def msg_def)
  have h2: "\<forall>m \<in> set (item_messages (chatOf exampleMessages)). msg_id m \<noteq> []"
    by (simp add: chatOf_def exampleMessages_def msg_def)
  have "''9'' \<notin> set (map msg_id exampleMessages) \<and> [] \<notin> set (map msg_id exampleMessages)"
    by (simp add: exampleMessages_def msg_def)
  with unmatched_snapshot_as_absent [OF h1 h2, of noCommands "''7''" "Some ''2''" initialHookState]
  show ?thesis by blast
qed

text \<open>
  Claim C6 as stated fails when a message has the empty id. Without a snapshot line 95
  takes the anchor to be the empty string, which finds that message: with the ids empty
  and \<^verbatim>\<open>a\<close> the first message is archived. A snapshot anchored at the unknown id
  \<^verbatim>\<open>zz\<close> archives nothing.
\<close>

theorem unmatched_snapshot_empty_id_counterexample:
  "''zz'' \<notin> set (map msg_id [msg [], msg ''a''])
   \<and> processStoredMessages noCommands ''7'' (chatOf [msg [], msg ''a''])
        (Some \<lparr>chatIndex = ''zz'', files = [], summary = None\<rparr>) None initialHookState
     \<noteq> processStoredMessages noCommands ''7'' (chatOf [msg [], msg ''a''])
        None None initialHookState
   \<and> archivedMessages (processStoredMessages noCommands ''7'' (chatOf [msg [], msg ''a''])
        (Some \<lparr>chatIndex = ''zz'', files = [], summary = None\<rparr>) None initialHookState) = []
   \<and> archivedMessages (processStoredMessages noCommands ''7'' (chatOf [msg [], msg ''a''])
        None None initialHookState) = [msg []]"
  by (simp add: resolver_defs)

section \<open>Claims about saving\<close>

lemma assignUrlId_frame:
  assumes "assignUrlId ops w = Inr (u, w1)"
  shows "chatId (hook w1) = chatId (hook w) \<and> initialMessages (hook w1) = initialMessages (hook w)
    \<and> db w1 = db w \<and> ls_chats (web w1) = ls_chats (web w)
    \<and> ls_currentChat (web w1) = ls_currentChat (web w) \<and> toasts (web w1) = toasts (web w)"
  using assms
  by (auto simp: assignUrlId_def navigateChat_def split: option.splits if_splits)

lemma takeSnapshot_no_chat_id: "\<not> truthy (chatId (hook w)) \<Longrightarrow> takeSnapshot ops i fs s w = w"
  by (simp add: takeSnapshot_def split: option.splits)

lemma describeFromArtifact_frame:
  "chatId (hook (describeFromArtifact w)) = chatId (hook w)
   \<and> initialMessages (hook (describeFromArtifact w)) = initialMessages (hook w)
   \<and> db (describeFromArtifact w) = db w \<and> web (describeFromArtifact w) = web w"
  by (simp add: describeFromArtifact_def split: option.splits)

text \<open>
  The guard of lines 338-344 where it is reached: some message is left after the filter
  of line 286, the \<^verbatim>\<open>chatId\<close> atom is unset, the hook holds loaded messages (so no id is
  assigned) and the url id lookup, if any, succeeds. The call returns, neither store is
  written and the error toast is shown.
\<close>

lemma storeMessageHistory_missing_chat_id:
  assumes stored: "filter (\<lambda>m. \<not> includes_tag m ''no-store'') messages \<noteq> []"
    and noid: "\<not> truthy (chatId (hook w))"
    and loaded: "initialMessages (hook w) \<noteq> []"
    and url: "assignUrlId ops w = Inr (u, w1)"
  shows "fst (storeMessageHistory ops nowMs nowIso messages w) = Returned
    \<and> db (snd (storeMessageHistory ops nowMs nowIso messages w)) = db w
    \<and> ls_chats (web (snd (storeMessageHistory ops nowMs nowIso messages w))) = ls_chats (web w)
    \<and> ls_currentChat (web (snd (storeMessageHistory ops nowMs nowIso messages w)))
        = ls_currentChat (web w)
    \<and> toasts (web (snd (storeMessageHistory ops nowMs nowIso messages w)))
        = toasts (web w) @ [ToastError ''Failed to save chat messages: Chat ID missing.'']"
proof -
  from stored have ne: "messages \<noteq> []" by auto
  from assignUrlId_frame [OF url] noid loaded
  have f1: "\<not> truthy (chatId (hook w1))" "initialMessages (hook w1) \<noteq> []"
    "db w1 = db w" "ls_chats (web w1) = ls_chats (web w)"
    "ls_currentChat (web w1) = ls_currentChat (web w)" "toasts (web w1) = toasts (web w)"
    by simp_all
  let ?w3 = "describeFromArtifact w1"
  from f1 describeFromArtifact_frame [of w1]
  have f3: "\<not> truthy (chatId (hook ?w3))" "initialMessages (hook ?w3) \<noteq> []"
    "db ?w3 = db w" "web ?w3 = web w1"
    by simp_all
  then have a: "assignChatId ops nowMs (urlId (hook w)) ?w3 = Inr ?w3"
    by (simp add: assignChatId_def)
  from ne stored url f1(1) a f3(1)
  have "storeMessageHistory ops nowMs nowIso messages w =
      (Returned,
       ?w3\<lparr>web := showToast (ToastError ''Failed to save chat messages: Chat ID missing.'')
                     (consoleLog ''Cannot save messages, chat ID is not set.'' (web ?w3))\<rparr>)"
    by (simp add: storeMessageHistory_def Let_def takeSnapshot_no_chat_id)
  with f1 f3 show ?thesis
    by (simp add: showToast_def consoleLog_def)
qed

text \<open>
  Claim C7 says that for every non-empty message list a save with no resolvable chat id is
  aborted with a user-visible error, and that nothing else makes the save fail. The code
  on a list whose only message is annotated \<^verbatim>\<open>no-store\<close>: the list passes the emptiness
  test of line 281, the filter of line 286 empties it, and line 300 throws a TypeError.
  With no resolvable chat id (\<open>strandedWorld\<close>) the call rejects and no toast is shown;
  with a chat not yet saved (\<open>freshWorld\<close>), where an id could be assigned, it rejects too.
  Neither call changes the state.
\<close>

theorem store_filtered_empty_throws:
  "storeMessageHistory idleDatabase ''1700000000000'' ''2024-01-01T00:00:00.000Z''
      [noStoreMessage] strandedWorld = (Threw TypeError, strandedWorld)
   \<and> toasts (web strandedWorld) = []
   \<and> \<not> truthy (chatId (hook strandedWorld))
   \<and> initialMessages (hook strandedWorld) \<noteq> []
   \<and> storeMessageHistory idleDatabase ''1700000000000'' ''2024-01-01T00:00:00.000Z''
      [noStoreMessage] freshWorld = (Threw TypeError, freshWorld)"
  by (simp add: storeMessageHistory_def assignUrlId_def includes_tag_def noStoreMessage_def
      strandedWorld_def freshWorld_def exampleBrowser_def initialHookState_def truthy_def)

section \<open>Facts about the JSON round trip\<close>

text \<open>Writing a parsed document gives the document back.\<close>

lemma stringify_parse:
  "JSON_stringify (JSON_parse j) = Some j"
  "stringify_elements (parse_elements js) = js"
  "stringify_properties (parse_properties ps) = ps"
  by (induction j and js and ps rule: JSON_parse_parse_elements_parse_properties.induct) simp_all

text \<open>Parsing what was written for JSON data gives the value back.\<close>

lemma parse_stringify:
  "jsonData v \<Longrightarrow> map_option JSON_parse (JSON_stringify v) = Some v"
  "jsonData_elements vs \<Longrightarrow> parse_elements (stringify_elements vs) = vs"
  "jsonData_properties ps \<Longrightarrow> parse_properties (stringify_properties ps) = ps"
  by (induction v and vs and ps rule: JSON_stringify_stringify_elements_stringify_properties.induct)
     (auto split: option.splits)

lemma stringify_optional_parse: "stringify_optional (map_option JSON_parse d) = d"
  by (cases d) (simp_all add: stringify_optional_def stringify_parse)

lemma parse_stringify_optional:
  "jsonDataOptional v \<Longrightarrow> map_option JSON_parse (stringify_optional v) = v"
  by (cases v) (simp_all add: stringify_optional_def jsonDataOptional_def parse_stringify)

lemma stringify_parse_message: "stringify_message (parse_message d) = d"
  by (simp add: stringify_message_def parse_message_def stringify_optional_parse)

lemma stringify_parse_chat: "stringify_chat (parse_chat d) = d"
  by (simp add: stringify_chat_def parse_chat_def stringify_optional_parse
      stringify_parse_message comp_def)

lemma parse_stringify_message:
  "jsonDataOptional (msg_createdAt m) \<Longrightarrow> parse_message (stringify_message m) = m"
  by (simp add: stringify_message_def parse_message_def parse_stringify_optional)

lemma parse_stringify_messages:
  "list_all (\<lambda>m. jsonDataOptional (msg_createdAt m)) ms
     \<Longrightarrow> map parse_message (map stringify_message ms) = ms"
  by (induction ms) (simp_all add: parse_stringify_message)

text \<open>A chat read from a document is not changed by another round trip.\<close>

lemma roundTrip_parse_chat: "roundTrip (parse_chat d) = parse_chat d"
  by (simp add: roundTrip_def stringify_parse_chat)

text \<open>A chat of JSON data is not changed by the round trip.\<close>

lemma roundTrip_jsonData:
  assumes "jsonDataChat c"
  shows "roundTrip c = c"
proof -
  from assms have "map parse_message (map stringify_message (chat_messages c)) = chat_messages c"
    by (simp only: jsonDataChat_def parse_stringify_messages)
  then have m: "map (parse_message \<circ> stringify_message) (chat_messages c) = chat_messages c"
    by simp
  from assms have md: "map_option JSON_parse (stringify_optional (chat_metadata c))
                         = chat_metadata c"
    by (simp add: jsonDataChat_def parse_stringify_optional)
  from m md show ?thesis
    by (cases c) (simp add: roundTrip_def stringify_chat_def parse_chat_def)
qed

text \<open>The id, the url id, the description and the timestamp are strings and stay.\<close>

lemma roundTrip_strings:
  "chat_id (roundTrip c) = chat_id c"
  "chat_urlId (roundTrip c) = chat_urlId c"
  "chat_description (roundTrip c) = chat_description c"
  "chat_timestamp (roundTrip c) = chat_timestamp c"
  by (simp_all add: roundTrip_def stringify_chat_def parse_chat_def)

section \<open>Claims about the LocalStorage fallback\<close>

lemma upsertChat_Nil: "upsertChat chat [] = [chat]"
  by (simp add: upsertChat_def)

lemma upsertChat_Cons:
  "upsertChat chat (c # cs) =
     (if chat_id c = chat_id chat then chat # cs else c # upsertChat chat cs)"
  using findIndex_ge [of "\<lambda>c. chat_id c = chat_id chat" cs]
  by (auto simp: upsertChat_def Let_def nat_add_distrib)

lemma find_upsertChat: "find (\<lambda>c. chat_id c = chat_id chat) (upsertChat chat cs) = Some chat"
  by (induction cs) (simp_all add: upsertChat_Nil upsertChat_Cons)

lemma upsertChat_others:
  "filter (\<lambda>c. chat_id c \<noteq> chat_id chat) (upsertChat chat cs)
     = filter (\<lambda>c. chat_id c \<noteq> chat_id chat) cs"
  by (induction cs) (simp_all add: upsertChat_Nil upsertChat_Cons)

lemma upsertChat_count:
  "length (filter (\<lambda>c. chat_id c = chat_id chat) (upsertChat chat cs))
     = max 1 (length (filter (\<lambda>c. chat_id c = chat_id chat) cs))"
  by (induction cs) (simp_all add: upsertChat_Nil upsertChat_Cons)

lemma upsertChat_shape:
  "upsertChat chat cs =
     (if chat_id chat \<in> chat_id ` set cs
      then cs[nat (findIndex (\<lambda>c. chat_id c = chat_id chat) cs) := chat]
      else cs @ [chat])"
proof -
  have "0 \<le> findIndex (\<lambda>c. chat_id c = chat_id chat) cs \<longleftrightarrow> chat_id chat \<in> chat_id ` set cs"
    unfolding findIndex_some by (metis (mono_tags, lifting) image_iff)
  then show ?thesis by (simp add: upsertChat_def Let_def)
qed

text \<open>The round trip of a list with the chat put in.\<close>

lemma roundTrip_upsertChat:
  "map roundTrip (upsertChat chat cs) = upsertChat (roundTrip chat) (map roundTrip cs)"
  by (induction cs) (simp_all add: upsertChat_Nil upsertChat_Cons roundTrip_strings)

text \<open>The chats read from LocalStorage come from a document.\<close>

lemma getAll_roundTrip:
  "map roundTrip (fst (getAllChatsFromLocalStorage b)) = fst (getAllChatsFromLocalStorage b)"
  by (cases "ls_chats b")
     (simp_all add: getAllChatsFromLocalStorage_def parse_chats_def roundTrip_parse_chat comp_def)

text \<open>
  After a save that went through, the stored list is the old list with the chat put in,
  the chat being what the JSON round trip makes of it.
\<close>

lemma getAll_after_save:
  assumes "ls_available b"
    and "ls_accepts b (stringify_chats (upsertChat chat (fst (getAllChatsFromLocalStorage b))))"
  shows "fst (getAllChatsFromLocalStorage (saveChatToLocalStorage chat b))
           = upsertChat (roundTrip chat) (fst (getAllChatsFromLocalStorage b))"
proof -
  let ?old = "fst (getAllChatsFromLocalStorage b)"
  from assms have "fst (getAllChatsFromLocalStorage (saveChatToLocalStorage chat b))
      = parse_chats (stringify_chats (upsertChat chat ?old))"
    by (cases "ls_chats b")
       (simp_all add: saveChatToLocalStorage_def getAllChatsFromLocalStorage_def
          isLocalStorageAvailable_def consoleLog_def)
  also have "\<dots> = map roundTrip (upsertChat chat ?old)"
    by (simp add: parse_chats_def stringify_chats_def roundTrip_def comp_def)
  also have "\<dots> = upsertChat (roundTrip chat) (map roundTrip ?old)"
    by (rule roundTrip_upsertChat)
  also have "\<dots> = upsertChat (roundTrip chat) ?old"
    by (simp only: getAll_roundTrip)
  finally show ?thesis .
qed

text \<open>
  What a load gives after a save that went through: the chat as the JSON round trip
  makes it.
\<close>

lemma load_after_save:
  assumes "ls_available b"
    and "ls_accepts b (stringify_chats (upsertChat chat (fst (getAllChatsFromLocalStorage b))))"
  shows "fst (getChatFromLocalStorage (chat_id chat) (saveChatToLocalStorage chat b))
           = Some (roundTrip chat)"
proof -
  let ?b' = "saveChatToLocalStorage chat b"
  from assms(1) have "ls_available ?b'"
    by (cases "ls_chats b")
       (simp_all add: saveChatToLocalStorage_def getAllChatsFromLocalStorage_def
          isLocalStorageAvailable_def consoleLog_def)
  then have "fst (getChatFromLocalStorage (chat_id chat) ?b')
      = find (\<lambda>c. chat_id c = chat_id chat) (fst (getAllChatsFromLocalStorage ?b'))"
    by (simp add: getChatFromLocalStorage_def isLocalStorageAvailable_def split: prod.split)
  also have "\<dots> = find (\<lambda>c. chat_id c = chat_id (roundTrip chat))
                     (upsertChat (roundTrip chat) (fst (getAllChatsFromLocalStorage b)))"
    by (simp only: getAll_after_save [OF assms] roundTrip_strings)
  also have "\<dots> = Some (roundTrip chat)" by (rule find_upsertChat)
  finally show ?thesis .
qed

text \<open>
  Claim C8, amended: a chat whose metadata and whose messages' \<^verbatim>\<open>createdAt\<close> values are
  JSON data (no \<^verbatim>\<open>Date\<close>, no \<^verbatim>\<open>undefined\<close> and no non-finite number inside), saved with
  \<^verbatim>\<open>saveChatToLocalStorage\<close> (LocalStorage is available and takes the document) and then
  loaded by its id with \<^verbatim>\<open>getChatFromLocalStorage\<close>, comes back as it was saved, so its
  messages, description and metadata are those saved.
\<close>

theorem save_then_load_roundtrip:
  assumes "ls_available b"
    and "ls_accepts b (stringify_chats (upsertChat chat (fst (getAllChatsFromLocalStorage b))))"
    and "jsonDataChat chat"
  shows "fst (getChatFromLocalStorage (chat_id chat) (saveChatToLocalStorage chat b)) = Some chat"
  using load_after_save [OF assms(1,2)] roundTrip_jsonData [OF assms(3)] by simp

text \<open>Claim C8, witness: a chat with four messages, a description and metadata, saved to
  an empty LocalStorage.\<close>

theorem save_then_load_roundtrip_witness:
  "ls_available exampleBrowser
   \<and> ls_accepts exampleBrowser
        (stringify_chats (upsertChat (exampleChat ''7'' exampleMessages)
           (fst (getAllChatsFromLocalStorage exampleBrowser))))
   \<and> jsonDataChat (exampleChat ''7'' exampleMessages)
   \<and> fst (getChatFromLocalStorage ''7''
            (saveChatToLocalStorage (exampleChat ''7'' exampleMessages) exampleBrowser))
       = Some (exampleChat ''7'' exampleMessages)"
proof -
  have h1: "ls_available exampleBrowser" by (simp add: exampleBrowser_def)
  have h2: "ls_accepts exampleBrowser
        (stringify_chats (upsertChat (exampleChat ''7'' exampleMessages)
           (fst (getAllChatsFromLocalStorage exampleBrowser))))"
    by (simp add: exampleBrowser_def)
  have h3: "jsonDataChat (exampleChat ''7'' exampleMessages)"
    by (simp add: jsonDataChat_def jsonDataOptional_def exampleChat_def exampleMessages_def
        msg_def)
  from save_then_load_roundtrip [OF h1 h2 h3] h1 h2 h3 show ?thesis
    by (simp add: exampleChat_def)
qed

text \<open>
  Claim C8 as stated fails for a message that carries a \<^verbatim>\<open>Date\<close>. The chat 7 with the one
  message \<open>datedMessage\<close> is saved to an empty LocalStorage and loaded: line 101 writes the
  date as a string and line 75 reads a string, so the loaded message has the string
  where the saved one has the \<^verbatim>\<open>Date\<close>, and the messages are not those saved.
\<close>

theorem save_then_load_date_counterexample:
  "map_option chat_messages
     (fst (getChatFromLocalStorage ''7''
            (saveChatToLocalStorage (exampleChat ''7'' [datedMessage]) exampleBrowser)))
     = Some [datedMessage\<lparr>msg_createdAt := Some (JsString ''2024-01-01T00:00:00.000Z'')\<rparr>]
   \<and> map_option chat_messages
     (fst (getChatFromLocalStorage ''7''
            (saveChatToLocalStorage (exampleChat ''7'' [datedMessage]) exampleBrowser)))
     \<noteq> Some (chat_messages (exampleChat ''7'' [datedMessage]))"
  by (simp add: getChatFromLocalStorage_def saveChatToLocalStorage_def
      getAllChatsFromLocalStorage_def isLocalStorageAvailable_def upsertChat_def
      stringify_chats_def parse_chats_def stringify_chat_def parse_chat_def
      stringify_message_def parse_message_def stringify_optional_def
      exampleBrowser_def exampleChat_def datedMessage_def)

text \<open>
  Claim C9: when a chat with id X is saved with \<^verbatim>\<open>saveChatToLocalStorage\<close> (LocalStorage
  is available and takes the document), then: if the stored list has an entry with id X,
  the first such entry is replaced in place and the length stays; otherwise the chat is
  appended. The entry put in is the chat as the JSON round trip makes it, with the same
  id. In both cases the entries with another id are the same, in the same order, and the
  number of entries with id X is what it was, or 1 if there was none.
\<close>

theorem save_replaces_or_appends:
  assumes "ls_available b"
    and "ls_accepts b (stringify_chats (upsertChat chat (fst (getAllChatsFromLocalStorage b))))"
  shows "(if chat_id chat \<in> chat_id ` set (fst (getAllChatsFromLocalStorage b))
          then fst (getAllChatsFromLocalStorage (saveChatToLocalStorage chat b))
                 = (fst (getAllChatsFromLocalStorage b))
                     [nat (findIndex (\<lambda>c. chat_id c = chat_id chat)
                             (fst (getAllChatsFromLocalStorage b))) := roundTrip chat]
             \<and> length (fst (getAllChatsFromLocalStorage (saveChatToLocalStorage chat b)))
                 = length (fst (getAllChatsFromLocalStorage b))
          else fst (getAllChatsFromLocalStorage (saveChatToLocalStorage chat b))
                 = fst (getAllChatsFromLocalStorage b) @ [roundTrip chat])
    \<and> chat_id (roundTrip chat) = chat_id chat
    \<and> filter (\<lambda>c. chat_id c \<noteq> chat_id chat)
          (fst (getAllChatsFromLocalStorage (saveChatToLocalStorage chat b)))
        = filter (\<lambda>c. chat_id c \<noteq> chat_id chat) (fst (getAllChatsFromLocalStorage b))
    \<and> length (filter (\<lambda>c. chat_id c = chat_id chat)
                 (fst (getAllChatsFromLocalStorage (saveChatToLocalStorage chat b))))
        = max 1 (length (filter (\<lambda>c. chat_id c = chat_id chat)
                           (fst (getAllChatsFromLocalStorage b))))"
proof -
  let ?old = "fst (getAllChatsFromLocalStorage b)"
  let ?new = "fst (getAllChatsFromLocalStorage (saveChatToLocalStorage chat b))"
  let ?c = "roundTrip chat"
  have new: "?new = upsertChat ?c ?old" by (rule getAll_after_save [OF assms])
  have ident: "chat_id ?c = chat_id chat" by (simp add: roundTrip_strings)
  have A: "(if chat_id chat \<in> chat_id ` set ?old
          then ?new = ?old[nat (findIndex (\<lambda>c. chat_id c = chat_id chat) ?old) := ?c]
             \<and> length ?new = length ?old
          else ?new = ?old @ [?c])"
    using upsertChat_shape [of ?c ?old] by (simp add: new ident)
  have B: "filter (\<lambda>c. chat_id c \<noteq> chat_id chat) ?new
             = filter (\<lambda>c. chat_id c \<noteq> chat_id chat) ?old"
    using upsertChat_others [of ?c ?old] by (simp add: new ident)
  have C: "length (filter (\<lambda>c. chat_id c = chat_id chat) ?new)
             = max 1 (length (filter (\<lambda>c. chat_id c = chat_id chat) ?old))"
    using upsertChat_count [of ?c ?old] by (simp add: new ident)
  from A ident B C show ?thesis by blast
qed

text \<open>Claim C9, witness: the chats 6 and 7 are stored and chat 7 is saved again with four
  messages; chat 6 stays and chat 7 is replaced where it was.\<close>

theorem save_replaces_or_appends_witness:
  "ls_available
     (exampleBrowser\<lparr>ls_chats :=
        ChatsJson (stringify_chats [exampleChat ''6'' [], exampleChat ''7'' []])\<rparr>)
   \<and> fst (getAllChatsFromLocalStorage
        (saveChatToLocalStorage (exampleChat ''7'' exampleMessages)
           (exampleBrowser\<lparr>ls_chats :=
              ChatsJson (stringify_chats [exampleChat ''6'' [], exampleChat ''7'' []])\<rparr>)))
     = [exampleChat ''6'' [], exampleChat ''7'' exampleMessages]"
proof -
  let ?b = "exampleBrowser\<lparr>ls_chats :=
              ChatsJson (stringify_chats [exampleChat ''6'' [], exampleChat ''7'' []])\<rparr>"
  have h1: "ls_available ?b" by (simp add: exampleBrowser_def)
  have h2: "ls_accepts ?b
        (stringify_chats (upsertChat (exampleChat ''7'' exampleMessages)
           (fst (getAllChatsFromLocalStorage ?b))))"
    by (simp add: exampleBrowser_def)
  have old: "fst (getAllChatsFromLocalStorage ?b) = [exampleChat ''6'' [], exampleChat ''7'' []]"
    by (simp add: getAllChatsFromLocalStorage_def isLocalStorageAvailable_def
        exampleBrowser_def parse_chats_def stringify_chats_def parse_chat_def
        stringify_chat_def stringify_optional_def exampleChat_def)
  have rt: "roundTrip (exampleChat ''7'' exampleMessages) = exampleChat ''7'' exampleMessages"
    by (rule roundTrip_jsonData)
       (simp add: jsonDataChat_def jsonDataOptional_def exampleChat_def exampleMessages_def
          msg_def)
  note replaced = save_replaces_or_appends [OF h1 h2, unfolded old rt]
  from replaced h1 show ?thesis
    by (simp add: exampleChat_def split: if_splits)
qed

section \<open>Claims about the chat store\<close>

text \<open>
  Claim C10: when neither the \<^verbatim>\<open>chatId\<close> argument nor the store's \<^verbatim>\<open>currentChatId\<close> is
  set (each is absent or the empty string), \<^verbatim>\<open>saveMessagesToLocalStorage\<close> leaves the
  browser as it was: nothing is written to LocalStorage, nothing is logged and no toast is
  shown.
\<close>

theorem saveMessages_without_id_noop:
  assumes "\<not> truthy chatIdArg" and "\<not> truthy (st_currentChatId store)"
  shows "saveMessagesToLocalStorage nowIso msgs chatIdArg store b = b"
  using assms by (simp add: saveMessagesToLocalStorage_def truthy_def split: option.splits)

text \<open>Claim C10, witness: the store as it is created, no id argument.\<close>

theorem saveMessages_without_id_noop_witness:
  "\<not> truthy None \<and> \<not> truthy (st_currentChatId idleStore)
   \<and> saveMessagesToLocalStorage ''2024-01-01T00:00:00.000Z'' exampleMessages None idleStore
        exampleBrowser = exampleBrowser"
proof -
  have h1: "\<not> truthy None" by (simp add: truthy_def)
  have h2: "\<not> truthy (st_currentChatId idleStore)" by (simp add: truthy_def idleStore_def)
  from saveMessages_without_id_noop [OF h1 h2] h1 h2 show ?thesis by simp
qed

end
